theory Spec2Isabelle
  imports Main "HOL-Library.Word"
begin

section \<open>Values, errors and panics\<close>

text \<open>
  Go strings and byte slices are sequences of bytes. A string is a \<open>string\<close> (a list of
  8-bit characters), a \<open>[]byte\<close> is a list of 8-bit words, and a nil slice is the empty
  list: \<open>len\<close>, \<open>append\<close>, slicing and ranging treat the two alike.
\<close>

type_synonym byte = "8 word"
type_synonym uint8 = "8 word"
type_synonym uint32 = "32 word"

text \<open>
  The error values of the two packages, and the error of \<open>encoding/base64\<close>
  (\<open>CorruptInputError\<close>, whose byte offset is left out). A run-time panic is not an error
  value: it is kept apart, so that a function either returns a value, returns an error or
  panics.
\<close>

datatype error =
    errUnknownHashImpl
  | errBadHashFormat
  | errBadParameters
  | errUnknownHashMod
  | errBadHashSize
  | CorruptInputError

datatype panic = IndexOutOfRange | NilDereference | LibraryPanic

datatype failure = Returned error | Panicked panic

type_synonym 'a result = "failure + 'a"

definition bytes_of_string :: "string \<Rightarrow> byte list" where
  "bytes_of_string s = map (\<lambda>c. word_of_nat (of_char c)) s"

section \<open>The library functions the packages call\<close>

subsection \<open>strings.Split\<close>

text \<open>
  \<open>split_at sep cur s\<close> scans \<open>s\<close> from the left for the non-empty separator \<open>sep\<close>;
  \<open>cur\<close> is the field read so far. Every occurrence closes a field, and the rest after the
  last occurrence is the last field, so the result has one field more than there are
  (non-overlapping) occurrences.
\<close>

function split_at :: "string \<Rightarrow> string \<Rightarrow> string \<Rightarrow> string list" where
  "split_at sep cur [] = [cur]"
| "split_at sep cur (c # cs) =
     (if sep \<noteq> [] \<and> take (length sep) (c # cs) = sep
      then cur # split_at sep [] (drop (length sep) (c # cs))
      else split_at sep (cur @ [c]) cs)"
  by pat_completeness auto
termination
  by (relation "measure (\<lambda>(sep, cur, s). length s)") auto

subsection \<open>encoding/base64, StdEncoding\<close>

definition encodeStd :: string where
  "encodeStd = ''ABCDEFGHIJKLMNOPQRSTUVWXYZabcdefghijklmnopqrstuvwxyz0123456789+/''"

definition padChar :: char where
  "padChar = CHR ''=''"

definition enc6 :: "nat \<Rightarrow> char" where
  "enc6 v = encodeStd ! (v mod 64)"

text \<open>
  Three bytes make a 24-bit quantum, \<open>a<<16 | b<<8 | c\<close>; the bit fields do not overlap,
  so the shifts and ors are written as products and sums. The quantum is written as four
  characters, each the 6 bits \<open>val>>k & 0x3F\<close>.
\<close>

definition quantum :: "byte \<Rightarrow> byte \<Rightarrow> byte \<Rightarrow> nat" where
  "quantum a b c = unat a * 65536 + unat b * 256 + unat c"

definition encode_quantum :: "nat \<Rightarrow> string" where
  "encode_quantum val =
     [enc6 (val div 262144), enc6 (val div 4096), enc6 (val div 64), enc6 val]"

fun EncodeToString :: "byte list \<Rightarrow> string" where
  "EncodeToString (a # b # c # rest) = encode_quantum (quantum a b c) @ EncodeToString rest"
| "EncodeToString [a, b] = take 3 (encode_quantum (quantum a b 0)) @ [padChar]"
| "EncodeToString [a] = take 2 (encode_quantum (quantum a 0 0)) @ [padChar, padChar]"
| "EncodeToString [] = []"

fun index_of :: "'a \<Rightarrow> 'a list \<Rightarrow> nat option" where
  "index_of x [] = None"
| "index_of x (y # ys) = (if x = y then Some 0 else map_option Suc (index_of x ys))"

definition decodeMap :: "char \<Rightarrow> nat option" where
  "decodeMap c = index_of c encodeStd"

definition is_newline :: "char \<Rightarrow> bool" where
  "is_newline c \<longleftrightarrow> c = CHR 0x0A \<or> c = CHR 0x0D"

text \<open>
  \<open>assemble dbuf\<close> turns the 2, 3 or 4 six-bit values of a quantum into its 1, 2 or 3
  bytes (the decoder is not strict: the unused low bits of a padded quantum are dropped
  unchecked).
\<close>

definition assemble :: "nat list \<Rightarrow> byte list" where
  "assemble dbuf =
     (let d = dbuf @ replicate (4 - length dbuf) 0;
          val = d ! 0 * 262144 + d ! 1 * 4096 + d ! 2 * 64 + d ! 3
      in take (length dbuf - 1)
           [word_of_nat (val div 65536), word_of_nat (val div 256), word_of_nat val])"

text \<open>
  The decoder reads quantum after quantum; \<open>dbuf\<close> holds the values of the quantum being
  read. Carriage returns and line feeds are skipped. The input may end only between two
  quanta. Padding is accepted only as the third and fourth or as the fourth character of a
  quantum, and only newlines may follow it. \<open>None\<close> is a \<open>CorruptInputError\<close>.
\<close>

fun decode :: "nat list \<Rightarrow> string \<Rightarrow> byte list option" where
  "decode dbuf [] = (if dbuf = [] then Some [] else None)"
| "decode dbuf (c # src) =
     (case decodeMap c of
        Some out \<Rightarrow>
          if length dbuf = 3 then map_option ((@) (assemble (dbuf @ [out]))) (decode [] src)
          else decode (dbuf @ [out]) src
      | None \<Rightarrow>
          if is_newline c then decode dbuf src
          else if c \<noteq> padChar then None
          else if length dbuf < 2 then None
          else if length dbuf = 2 then
            (case dropWhile is_newline src of
               [] \<Rightarrow> None
             | p # src' \<Rightarrow>
                 if p \<noteq> padChar then None
                 else if dropWhile is_newline src' \<noteq> [] then None
                 else Some (assemble dbuf))
          else if dropWhile is_newline src \<noteq> [] then None
          else Some (assemble dbuf))"

definition DecodeString :: "string \<Rightarrow> byte list option" where
  "DecodeString s = decode [] s"

subsection \<open>strconv.ParseInt in base 10, and the verb \<open>%d\<close>\<close>

definition digits :: string where
  "digits = ''0123456789''"

fun parse_digits :: "int \<Rightarrow> string \<Rightarrow> int option" where
  "parse_digits acc [] = Some acc"
| "parse_digits acc (c # cs) =
     (case index_of c digits of
        None \<Rightarrow> None
      | Some d \<Rightarrow> parse_digits (acc * 10 + int d) cs)"

definition ParseUint :: "string \<Rightarrow> int option" where
  "ParseUint s = (if s = [] then None else parse_digits 0 s)"

text \<open>
  \<open>ParseInt s bitSize\<close> is \<open>strconv.ParseInt(s, 10, bitSize)\<close>; \<open>None\<close> is a syntax or a
  range error. An optional sign is followed by at least one decimal digit, and the value
  must fit a signed integer of \<open>bitSize\<close> bits.
\<close>

definition ParseInt :: "string \<Rightarrow> nat \<Rightarrow> int option" where
  "ParseInt s bitSize =
     (case s of
        [] \<Rightarrow> None
      | c # cs \<Rightarrow>
          let neg = (c = CHR ''-'');
              s' = (if c = CHR ''+'' \<or> c = CHR ''-'' then cs else s)
          in (case ParseUint s' of
                None \<Rightarrow> None
              | Some un \<Rightarrow>
                  let cutoff = (2::int) ^ (bitSize - 1)
                  in if \<not> neg \<and> un \<ge> cutoff then None
                     else if neg \<and> un > cutoff then None
                     else Some (if neg then - un else un)))"

function FormatUint :: "nat \<Rightarrow> string" where
  "FormatUint n = (if n < 10 then [digits ! n] else FormatUint (n div 10) @ [digits ! (n mod 10)])"
  by pat_completeness auto
termination
  by (relation "measure id") auto

declare FormatUint.simps [simp del]

subsection \<open>What is taken as given\<close>

text \<open>
  The cryptographic primitives, the random source and the machine are parameters:
  \<^item> \<open>rand_Read n\<close> is the outcome of \<open>crypto/rand.Read\<close> on a buffer of \<open>n\<close> bytes: the
    buffer afterwards, the number of bytes read, and whether an error was returned;
  \<^item> \<open>hmac_sha256 key message\<close> is the HMAC-SHA256 tag;
  \<^item> \<open>argon2_Key\<close> and \<open>argon2_IDKey\<close> are the two key derivations of
    \<open>golang.org/x/crypto/argon2\<close>, with arguments password, salt, time, memory, threads
    and key length;
  \<^item> \<open>NumCPU\<close> is \<open>runtime.NumCPU()\<close>;
  \<^item> \<open>explode\<close> is what \<open>strings.Split\<close> does with an empty separator (it cuts the
    string into UTF-8 sequences).
\<close>

record env =
  rand_Read :: "nat \<Rightarrow> byte list \<times> nat \<times> bool"
  hmac_sha256 :: "byte list \<Rightarrow> byte list \<Rightarrow> byte list"
  argon2_Key :: "byte list \<Rightarrow> byte list \<Rightarrow> uint32 \<Rightarrow> uint32 \<Rightarrow> uint8 \<Rightarrow> uint32 \<Rightarrow> byte list"
  argon2_IDKey :: "byte list \<Rightarrow> byte list \<Rightarrow> uint32 \<Rightarrow> uint32 \<Rightarrow> uint8 \<Rightarrow> uint32 \<Rightarrow> byte list"
  NumCPU :: nat
  explode :: "string \<Rightarrow> string list"

definition Split :: "env \<Rightarrow> string \<Rightarrow> string \<Rightarrow> string list" where
  "Split env s sep = (if sep = [] then explode env s else split_at sep [] s)"

text \<open>
  Both key derivations of the library go through its \<open>deriveKey\<close>, which first checks
  its arguments and panics when the time is less than 1 or the number of threads is less
  than 1. \<open>argon2_Key\<close> and \<open>argon2_IDKey\<close> are the keys of the calls that pass the checks.
\<close>

definition deriveKey ::
  "(byte list \<Rightarrow> byte list \<Rightarrow> uint32 \<Rightarrow> uint32 \<Rightarrow> uint8 \<Rightarrow> uint32 \<Rightarrow> byte list)
     \<Rightarrow> byte list \<Rightarrow> byte list \<Rightarrow> uint32 \<Rightarrow> uint32 \<Rightarrow> uint8 \<Rightarrow> uint32 \<Rightarrow> byte list result" where
  "deriveKey kdf password salt time memory threads keyLen =
     (if time < 1 then Inl (Panicked LibraryPanic)
      else if threads < 1 then Inl (Panicked LibraryPanic)
      else Inr (kdf password salt time memory threads keyLen))"

section \<open>The argon2 implementation\<close>

definition hashID :: string where
  "hashID = ''argon2''"

definition argonNumParameters :: nat where
  "argonNumParameters = 3"

definition argonDefaultMemoryPasses :: uint32 where
  "argonDefaultMemoryPasses = 4"

definition argonDefaultMemorySize :: uint32 where
  "argonDefaultMemorySize = 64 * 1024"

definition argonDefaultHashSize :: uint32 where
  "argonDefaultHashSize = 32"

definition argonDefaultMode :: string where
  "argonDefaultMode = ''id''"

definition argonThreads :: "env \<Rightarrow> uint8" where
  "argonThreads env = word_of_nat (NumCPU env div 2)"

definition argonModi :: "string list" where
  "argonModi = [''i'', ''id'']"

record argon2 =
  MemoryPasses :: uint32
  MemorySize :: uint32
  Mode :: string
  HashSize :: uint32

text \<open>
  The methods have pointer receivers, and \<open>configureArgon\<close> returns the address of a
  copy. The store is the list of the \<open>argon2\<close> structs allocated so far; a pointer is
  \<open>nil\<close> or the index of a cell, and a new cell is appended. Reading through
  \<open>nil\<close> panics (a pointer to no cell does not arise in Go and is read the same way).
\<close>

type_synonym heap = "argon2 list"

datatype ref = nil | Ref nat

fun deref :: "heap \<Rightarrow> ref \<Rightarrow> argon2 option" where
  "deref h nil = None"
| "deref h (Ref a) = (if a < length h then Some (h ! a) else None)"

definition encodedString :: "argon2 \<Rightarrow> string" where
  "encodedString c =
     Mode c @ '':'' @ FormatUint (unat (MemoryPasses c)) @ '':'' @ FormatUint (unat (MemorySize c))"

definition argon2_Hash ::
  "env \<Rightarrow> heap \<Rightarrow> ref \<Rightarrow> byte list \<Rightarrow> byte list \<Rightarrow> (string \<times> byte list) result" where
  "argon2_Hash env h uc password salt =
     (case deref h uc of
        None \<Rightarrow> Inl (Panicked NilDereference)
      | Some c \<Rightarrow>
          if Mode c = ''i'' then
            (case deriveKey (argon2_Key env) password salt (MemoryPasses c) (MemorySize c)
                    (argonThreads env) (HashSize c) of
               Inl e \<Rightarrow> Inl e
             | Inr k \<Rightarrow> Inr (encodedString c, k))
          else if Mode c = ''id'' then
            (case deriveKey (argon2_IDKey env) password salt (MemoryPasses c) (MemorySize c)
                    (argonThreads env) (HashSize c) of
               Inl e \<Rightarrow> Inl e
             | Inr k \<Rightarrow> Inr (encodedString c, k))
          else Inl (Returned errUnknownHashMod))"

fun inStrArray :: "string \<Rightarrow> string list \<Rightarrow> bool" where
  "inStrArray val [] = False"
| "inStrArray val (item # array) = (if item = val then True else inStrArray val array)"

text \<open>
  \<open>nc := *uc\<close> allocates the copy at a fresh address; the four assignments write to that
  cell; \<open>&nc\<close> is returned. When the check fails the copy is left behind unreferenced.
\<close>

definition configureArgon ::
  "heap \<Rightarrow> ref \<Rightarrow> string \<Rightarrow> uint32 \<Rightarrow> uint32 \<Rightarrow> uint32 \<Rightarrow> heap \<times> ref result" where
  "configureArgon h uc mode hashSize passes memory =
     (case deref h uc of
        None \<Rightarrow> (h, Inl (Panicked NilDereference))
      | Some c \<Rightarrow>
          let nc = length h;
              h1 = h @ [c]
          in if \<not> inStrArray mode argonModi \<or> hashSize \<le> 0 \<or> passes \<le> 0 \<or> memory \<le> 0
             then (h1, Inl (Returned errBadParameters))
             else
               let h2 = h1[nc := (h1 ! nc)\<lparr>Mode := mode\<rparr>];
                   h3 = h2[nc := (h2 ! nc)\<lparr>HashSize := hashSize\<rparr>];
                   h4 = h3[nc := (h3 ! nc)\<lparr>MemoryPasses := passes\<rparr>];
                   h5 = h4[nc := (h4 ! nc)\<lparr>MemorySize := memory\<rparr>]
               in (h5, Inr (Ref nc)))"

definition argon2_Configure ::
  "env \<Rightarrow> heap \<Rightarrow> ref \<Rightarrow> string \<Rightarrow> string \<Rightarrow> uint32 \<Rightarrow> heap \<times> ref result" where
  "argon2_Configure env h uc parameters separator hashSize =
     (let pars = Split env parameters separator
      in if length pars < argonNumParameters then (h, Inl (Returned errBadParameters))
         else
           let mode = pars ! 0
           in (case ParseInt (pars ! 1) 8 of
                 None \<Rightarrow> (h, Inl (Returned errBadParameters))
               | Some passes \<Rightarrow>
                   (case ParseInt (pars ! 2) 32 of
                      None \<Rightarrow> (h, Inl (Returned errBadParameters))
                    | Some memory \<Rightarrow>
                        configureArgon h uc mode hashSize (word_of_int passes)
                          (word_of_int memory))))"

definition SetHashSize :: "heap \<Rightarrow> ref \<Rightarrow> uint32 \<Rightarrow> heap \<times> unit result" where
  "SetHashSize h uc size' =
     (if size' \<le> 0 then (h, Inl (Returned errBadHashSize))
      else (case uc of
              nil \<Rightarrow> (h, Inl (Panicked NilDereference))
            | Ref a \<Rightarrow>
                if a < length h then (h[a := (h ! a)\<lparr>HashSize := size'\<rparr>], Inr ())
                else (h, Inl (Panicked NilDereference))))"

definition argon2_GetID :: "ref \<Rightarrow> string" where
  "argon2_GetID uc = hashID"

definition argon2_GetDefaultHashSize :: "ref \<Rightarrow> int" where
  "argon2_GetDefaultHashSize uc = uint argonDefaultHashSize"

section \<open>The interface and the registry\<close>

text \<open>
  The engine and the implementation are read as one program: the map \<open>implementations\<close>
  that \<open>init\<close> fills is the engine's \<open>HashImplementations\<close>, and the type \<open>hash\<close> that
  \<open>Configure\<close> returns is the interface \<open>HashImplementation\<close>.

  A value of the interface is a receiver together with the methods of its type.
  \<open>Configure\<close> returns a value of the same type: the new receiver with the same methods.
  The methods the engine never calls are left out. \<open>GetID\<close>, \<open>GetDefaultHashSize\<close>,
  \<open>Hash_of\<close> and \<open>Configure\<close> are the calls of a method on an interface value
  (\<open>Hash_of hasher\<close> is \<open>hasher.Hash\<close>, apart from the engine's own \<open>Hash\<close>).
\<close>

record 'c HashImplementation =
  self :: 'c
  m_GetID :: "'c \<Rightarrow> string"
  m_Hash :: "heap \<Rightarrow> 'c \<Rightarrow> byte list \<Rightarrow> byte list \<Rightarrow> (string \<times> byte list) result"
  m_Configure :: "heap \<Rightarrow> 'c \<Rightarrow> string \<Rightarrow> string \<Rightarrow> uint32 \<Rightarrow> heap \<times> 'c result"
  m_GetDefaultHashSize :: "'c \<Rightarrow> int"

definition GetID :: "'c HashImplementation \<Rightarrow> string" where
  "GetID impl = m_GetID impl (self impl)"

definition GetDefaultHashSize :: "'c HashImplementation \<Rightarrow> int" where
  "GetDefaultHashSize impl = m_GetDefaultHashSize impl (self impl)"

definition Hash_of ::
  "'c HashImplementation \<Rightarrow> heap \<Rightarrow> byte list \<Rightarrow> byte list \<Rightarrow> (string \<times> byte list) result" where
  "Hash_of impl h password salt = m_Hash impl h (self impl) password salt"

definition Configure ::
  "'c HashImplementation \<Rightarrow> heap \<Rightarrow> string \<Rightarrow> string \<Rightarrow> uint32
     \<Rightarrow> heap \<times> 'c HashImplementation result" where
  "Configure impl h parameters separator hashSize =
     (case m_Configure impl h (self impl) parameters separator hashSize of
        (h', Inl e) \<Rightarrow> (h', Inl e)
      | (h', Inr c) \<Rightarrow> (h', Inr (impl\<lparr>self := c\<rparr>)))"

definition argon2_impl :: "env \<Rightarrow> ref \<Rightarrow> ref HashImplementation" where
  "argon2_impl env uc =
     \<lparr>self = uc,
      m_GetID = argon2_GetID,
      m_Hash = argon2_Hash env,
      m_Configure = argon2_Configure env,
      m_GetDefaultHashSize = argon2_GetDefaultHashSize\<rparr>"

type_synonym 'c registry = "string \<rightharpoonup> 'c HashImplementation"

text \<open>
  \<open>init\<close> allocates the default configuration and registers it under \<open>hashID\<close>.
\<close>

definition argonDefault :: argon2 where
  "argonDefault =
     \<lparr>MemoryPasses = argonDefaultMemoryPasses,
      MemorySize = argonDefaultMemorySize,
      Mode = argonDefaultMode,
      HashSize = argonDefaultHashSize\<rparr>"

definition init_heap :: heap where
  "init_heap = [argonDefault]"

definition HashImplementations :: "env \<Rightarrow> ref registry" where
  "HashImplementations env = [hashID \<mapsto> argon2_impl env (Ref 0)]"

text \<open>Every implementation is registered under the identifier it reports.\<close>

definition registry_ok :: "'c registry \<Rightarrow> bool" where
  "registry_ok reg \<longleftrightarrow> (\<forall>k impl. reg k = Some impl \<longrightarrow> GetID impl = k)"

section \<open>The encoding engine\<close>

definition DefaultAlgo :: string where
  "DefaultAlgo = ''argon2''"

definition MinHashParts :: nat where
  "MinHashParts = 5"

definition SaltSize :: nat where
  "SaltSize = 10"

definition Separator :: string where
  "Separator = ''$''"

definition ParameterSeparator :: string where
  "ParameterSeparator = '':''"

definition GenerateRandomBytes :: "env \<Rightarrow> nat \<Rightarrow> byte list" where
  "GenerateRandomBytes env length' =
     (case rand_Read env length' of
        (b, n, err) \<Rightarrow> if err \<or> n \<noteq> length' then [] else b)"

text \<open>Writing to a hash never returns an error, so \<open>hmacKey\<close> always returns the sum.\<close>

definition hmacKey :: "env \<Rightarrow> string \<Rightarrow> byte list \<Rightarrow> byte list result" where
  "hmacKey env params key = Inr (hmac_sha256 env (bytes_of_string params) key)"

text \<open>
  A key that is not in the map gives the nil interface, and calling a method of it panics.
\<close>

definition Hash :: "env \<Rightarrow> 'c registry \<Rightarrow> heap \<Rightarrow> byte list \<Rightarrow> string result" where
  "Hash env reg h input =
     (let hashImpl = DefaultAlgo;
          hasher = reg hashImpl;
          salt = GenerateRandomBytes env SaltSize
      in (case hasher of
            None \<Rightarrow> Inl (Panicked NilDereference)
          | Some hasher \<Rightarrow>
              (case Hash_of hasher h input salt of
                 Inl e \<Rightarrow> Inl e
               | Inr (params, hash) \<Rightarrow>
                   let hashSize = (word_of_nat (length hash) :: byte);
                       salt = hashSize # salt;
                       encodedSalt = EncodeToString salt;
                       prefix = ''$'' @ hashImpl @ ''$'' @ params @ ''$'' @ encodedSalt @ ''$''
                   in (case hmacKey env prefix hash of
                         Inl e \<Rightarrow> Inl e
                       | Inr hmacHash \<Rightarrow> Inr (prefix @ EncodeToString hmacHash)))))"

definition parseHash ::
  "env \<Rightarrow> 'c registry \<Rightarrow> string
     \<Rightarrow> ('c HashImplementation \<times> string \<times> byte list \<times> int \<times> string) result" where
  "parseHash env reg hash =
     (let parts = Split env hash Separator
      in if length parts < MinHashParts then Inl (Returned errBadHashFormat)
         else (case reg (parts ! 1) of
                 None \<Rightarrow> Inl (Returned errUnknownHashImpl)
               | Some hashImpl \<Rightarrow>
                   (case DecodeString (parts ! 3) of
                      None \<Rightarrow> Inl (Returned errBadHashFormat)
                    | Some salt \<Rightarrow>
                        (case salt of
                           [] \<Rightarrow> Inl (Panicked IndexOutOfRange)
                         | b # salt' \<Rightarrow>
                             Inr (hashImpl, parts ! 2, salt', uint b, parts ! 4)))))"

definition VerifyHash ::
  "env \<Rightarrow> 'c registry \<Rightarrow> heap \<Rightarrow> string \<Rightarrow> byte list \<Rightarrow> bool result" where
  "VerifyHash env reg h hash input =
     (case parseHash env reg hash of
        Inl e \<Rightarrow> Inl e
      | Inr (hashImpl, paramStr, salt, hashSize, key) \<Rightarrow>
          (case Configure hashImpl h paramStr ParameterSeparator (word_of_int hashSize) of
             (h', Inl e) \<Rightarrow> Inl e
           | (h', Inr hashImpl') \<Rightarrow>
               (case Hash_of hashImpl' h' input salt of
                  Inl e \<Rightarrow> Inl e
                | Inr (_, otherKey) \<Rightarrow>
                    (case hmacKey env (take (length hash - length key) hash) otherKey of
                       Inl e \<Rightarrow> Inl e
                     | Inr hashed \<Rightarrow>
                         (case DecodeString key of
                            None \<Rightarrow> Inl (Returned CorruptInputError)
                          | Some baseMac \<Rightarrow> Inr (baseMac = hashed))))))"

definition NeedsRehash :: "env \<Rightarrow> 'c registry \<Rightarrow> string \<Rightarrow> bool result" where
  "NeedsRehash env reg hash =
     (case parseHash env reg hash of
        Inl e \<Rightarrow> Inl e
      | Inr (hashImpl, _, salt, hashSize, _) \<Rightarrow>
          Inr (GetID hashImpl \<noteq> DefaultAlgo \<and> length salt < SaltSize
               \<and> hashSize < GetDefaultHashSize hashImpl))"

text \<open>
  What the proofs below use of the key derivations: they return as many bytes as asked for.
\<close>

definition returns_keyLen :: "env \<Rightarrow> bool" where
  "returns_keyLen env \<longleftrightarrow>
     (\<forall>pw salt t m th l. length (argon2_Key env pw salt t m th l) = unat l
                         \<and> length (argon2_IDKey env pw salt t m th l) = unat l)"

section \<open>An environment for running the functions\<close>

text \<open>
  Stand-ins for the primitives, small enough to compute with: the random source counts
  upwards, the key derivations fill the key with the sum of the password bytes, and the
  tag is made of the lengths of key and message and the first byte of the message.
\<close>

definition example_env :: env where
  "example_env =
     \<lparr>rand_Read = (\<lambda>n. (map word_of_nat [1..<Suc n], n, False)),
      hmac_sha256 = (\<lambda>key msg. [word_of_nat (length key), word_of_nat (length msg), hd (msg @ [0])]),
      argon2_Key = (\<lambda>pw salt t m th l. replicate (unat l) (sum_list pw)),
      argon2_IDKey = (\<lambda>pw salt t m th l. replicate (unat l) (sum_list pw + 1)),
      NumCPU = 4,
      explode = (\<lambda>s. map (\<lambda>c. [c]) s)\<rparr>"

text \<open>
  A second implementation, to run the engine on records of another algorithm: it knows one
  parameter string, derives eight bytes, and its default hash size is 64.
\<close>

definition legacy_impl :: "ref HashImplementation" where
  "legacy_impl =
     \<lparr>self = nil,
      m_GetID = (\<lambda>uc. ''legacy''),
      m_Hash = (\<lambda>h uc password salt. Inr (''v1'', take 8 (password @ salt @ replicate 8 0))),
      m_Configure = (\<lambda>h uc parameters separator hashSize.
                       if parameters = ''v1'' then (h, Inr uc)
                       else (h, Inl (Returned errBadParameters))),
      m_GetDefaultHashSize = (\<lambda>uc. 64)\<rparr>"

definition example_registry :: "ref registry" where
  "example_registry = (HashImplementations example_env)(''legacy'' \<mapsto> legacy_impl)"

section \<open>Base64: decoding undoes encoding\<close>

lemma decodeMap_enc6: "decodeMap (enc6 v) = Some (v mod 64)"
proof -
  have "\<forall>n \<in> set [0..<64]. decodeMap (encodeStd ! n) = Some n"
    by (simp add: decodeMap_def encodeStd_def upt_conv_Cons del: upt_Suc)
  moreover have "v mod 64 \<in> set [0..<64]" by simp
  ultimately show ?thesis unfolding enc6_def by blast
qed

lemma decodeMap_padChar: "decodeMap padChar = None"
  by (simp add: decodeMap_def encodeStd_def padChar_def)

lemma not_newline_padChar: "\<not> is_newline padChar"
  by (simp add: is_newline_def padChar_def)

lemma decode_enc6:
  "decode dbuf (enc6 v # src) =
     (if length dbuf = 3 then map_option ((@) (assemble (dbuf @ [v mod 64]))) (decode [] src)
      else decode (dbuf @ [v mod 64]) src)"
  by (simp add: decodeMap_enc6)

lemma decode_pad2: "decode [x, y] [padChar, padChar] = Some (assemble [x, y])"
  by (simp add: decodeMap_padChar not_newline_padChar)

lemma decode_pad1: "decode [x, y, z] [padChar] = Some (assemble [x, y, z])"
  by (simp add: decodeMap_padChar not_newline_padChar)

lemma sextets_val:
  fixes val :: nat
  assumes "val < 16777216"
  shows "(val div 262144) mod 64 * 262144 + (val div 4096) mod 64 * 4096
           + (val div 64) mod 64 * 64 + val mod 64 = val"
proof -
  define q1 where "q1 = val div 64"
  define q2 where "q2 = q1 div 64"
  define q3 where "q3 = q2 div 64"
  define r0 where "r0 = val mod 64"
  define r1 where "r1 = q1 mod 64"
  define r2 where "r2 = q2 mod 64"
  have e0: "val = q1 * 64 + r0" by (simp add: q1_def r0_def)
  have e1: "q1 = q2 * 64 + r1" by (simp add: q2_def r1_def)
  have e2: "q2 = q3 * 64 + r2" by (simp add: q3_def r2_def)
  have d2: "val div 4096 = q2"
    using div_mult2_eq [of val 64 64] by (simp add: q1_def q2_def)
  have d3: "val div 262144 = q3"
    using div_mult2_eq [of val 4096 64] by (simp add: d2 q3_def)
  have "q3 < 64" using assms unfolding d3 [symmetric] by (simp add: less_mult_imp_div_less)
  then have m3: "q3 mod 64 = q3" by simp
  have "q3 * 262144 + r2 * 4096 + r1 * 64 + r0 = val"
    using e0 e1 e2 by linarith
  then show ?thesis
    by (simp only: d2 d3 m3 q1_def [symmetric] r0_def [symmetric] r1_def [symmetric] r2_def [symmetric])
qed

lemma assemble_sextets:
  fixes val :: nat
  assumes lt: "val < 16777216"
  defines "s0 \<equiv> val div 262144 mod 64" and "s1 \<equiv> val div 4096 mod 64"
    and "s2 \<equiv> val div 64 mod 64" and "s3 \<equiv> val mod 64"
  shows "assemble [s0, s1, s2, s3] =
           [word_of_nat (val div 65536), word_of_nat (val div 256), word_of_nat val]"
    and "s3 = 0 \<Longrightarrow> assemble [s0, s1, s2] =
           [word_of_nat (val div 65536), word_of_nat (val div 256)]"
    and "s3 = 0 \<Longrightarrow> s2 = 0 \<Longrightarrow> assemble [s0, s1] = [word_of_nat (val div 65536)]"
proof -
  have eq: "s0 * 262144 + s1 * 4096 + s2 * 64 + s3 = val"
    unfolding s0_def s1_def s2_def s3_def by (rule sextets_val [OF lt])
  show "assemble [s0, s1, s2, s3] =
           [word_of_nat (val div 65536), word_of_nat (val div 256), word_of_nat val]"
    using eq by (simp add: assemble_def del: of_nat_add of_nat_mult)
  show "s3 = 0 \<Longrightarrow> assemble [s0, s1, s2] =
           [word_of_nat (val div 65536), word_of_nat (val div 256)]"
    using eq by (simp add: assemble_def del: of_nat_add of_nat_mult)
  show "s3 = 0 \<Longrightarrow> s2 = 0 \<Longrightarrow> assemble [s0, s1] = [word_of_nat (val div 65536)]"
    using eq by (simp add: assemble_def del: of_nat_add of_nat_mult)
qed

lemma word8_of_nat_add_mult:
  "(word_of_nat (k * 256 + n) :: byte) = word_of_nat n"
proof -
  have "(k * 256 + n) mod 256 = n mod 256" by simp
  then show ?thesis
    unfolding word_of_nat_eq_iff take_bit_eq_mod by simp
qed

lemma word8_of_unat: "(word_of_nat (unat (c::byte)) :: byte) = c"
  by simp

lemma unat_byte_less: "unat (a::byte) < 256"
  using unsigned_less [of a, where 'a = nat] by simp

lemma quantum_less: "quantum a b c < 16777216"
  using unat_byte_less [of a] unat_byte_less [of b] unat_byte_less [of c]
  by (simp add: quantum_def)

lemma quantum_bytes:
  "(word_of_nat (quantum a b c div 65536) :: byte) = a"
  "(word_of_nat (quantum a b c div 256) :: byte) = b"
  "(word_of_nat (quantum a b c) :: byte) = c"
proof -
  have d1: "quantum a b c div 65536 = unat a"
    using unat_byte_less [of b] unat_byte_less [of c] by (simp add: quantum_def)
  have d2: "quantum a b c div 256 = unat a * 256 + unat b"
    using unat_byte_less [of c] by (simp add: quantum_def)
  have d3: "quantum a b c = (unat a * 256 + unat b) * 256 + unat c"
    by (simp add: quantum_def)
  show "(word_of_nat (quantum a b c div 65536) :: byte) = a"
    by (simp only: d1 word8_of_unat)
  show "(word_of_nat (quantum a b c div 256) :: byte) = b"
    by (simp only: d2 word8_of_nat_add_mult word8_of_unat)
  show "(word_of_nat (quantum a b c) :: byte) = c"
    by (subst d3) (simp only: word8_of_nat_add_mult word8_of_unat)
qed

lemma quantum_low_zero:
  "quantum a b 0 mod 64 = 0" "quantum a 0 0 div 64 mod 64 = 0"
  by (simp_all add: quantum_def)

lemma decode_encode_quantum:
  "decode [] (encode_quantum (quantum a b c) @ src) = map_option ((@) [a, b, c]) (decode [] src)"
  by (simp add: encode_quantum_def decode_enc6 assemble_sextets(1) [OF quantum_less] quantum_bytes
      del: decode.simps)

lemma decode_encode_quantum2:
  "decode [] (take 3 (encode_quantum (quantum a b 0)) @ [padChar]) = Some [a, b]"
  by (simp add: encode_quantum_def decode_enc6 decode_pad1
        assemble_sextets(2) [OF quantum_less] quantum_bytes quantum_low_zero
      del: decode.simps)

lemma decode_encode_quantum1:
  "decode [] (take 2 (encode_quantum (quantum a 0 0)) @ [padChar, padChar]) = Some [a]"
  by (simp add: encode_quantum_def decode_enc6 decode_pad2
        assemble_sextets(3) [OF quantum_less] quantum_bytes quantum_low_zero
      del: decode.simps)

lemma DecodeString_EncodeToString: "DecodeString (EncodeToString bs) = Some bs"
  unfolding DecodeString_def
proof (induction bs rule: EncodeToString.induct)
  case (1 a b c rest)
  then show ?case by (simp add: decode_encode_quantum del: decode.simps)
next
  case (2 a b)
  then show ?case by (simp only: EncodeToString.simps decode_encode_quantum2)
next
  case (3 a)
  then show ?case by (simp only: EncodeToString.simps decode_encode_quantum1)
next
  case 4
  then show ?case by simp
qed


section \<open>The functions on the example environment\<close>

lemma FormatUint_small: "n < 10 \<Longrightarrow> FormatUint n = [digits ! n]"
  by (subst FormatUint.simps) simp

lemma FormatUint_step:
  "10 \<le> n \<Longrightarrow> FormatUint n = FormatUint (n div 10) @ [digits ! (n mod 10)]"
  by (subst FormatUint.simps) simp

lemma FormatUint_default: "FormatUint 4 = ''4''" "FormatUint 65536 = ''65536''"
  by (simp_all add: FormatUint_small FormatUint_step digits_def)

lemma encodedString_default: "encodedString argonDefault = ''id:4:65536''"
  by (simp add: encodedString_def argonDefault_def argonDefaultMode_def
        argonDefaultMemoryPasses_def argonDefaultMemorySize_def FormatUint_default)

lemma argonDefault_fields:
  "Mode argonDefault = ''id''" "MemoryPasses argonDefault = 4"
  "MemorySize argonDefault = 65536" "HashSize argonDefault = 32"
  by (simp_all add: argonDefault_def argonDefaultMode_def argonDefaultMemoryPasses_def
        argonDefaultMemorySize_def argonDefaultHashSize_def)

lemma argon2_Hash_default:
  assumes "deref h uc = Some argonDefault" and "argonThreads env \<noteq> 0"
  shows "Hash_of (argon2_impl env uc) h input salt =
           Inr (''id:4:65536'',
                argon2_IDKey env input salt 4 65536 (argonThreads env) 32)"
  using assms
  by (simp add: Hash_of_def argon2_impl_def argon2_Hash_def encodedString_default
        argonDefault_fields deriveKey_def)

lemma argon2_Hash_default_no_threads:
  assumes "deref h uc = Some argonDefault" and "argonThreads env = 0"
  shows "Hash_of (argon2_impl env uc) h input salt = Inl (Panicked LibraryPanic)"
  using assms
  by (simp add: Hash_of_def argon2_impl_def argon2_Hash_def argonDefault_fields deriveKey_def)

text \<open>
  On a machine with one CPU \<open>argonThreads\<close> is 0, and \<open>Hash\<close> panics in the library.
\<close>

lemma Hash_one_CPU:
  assumes "NumCPU env = 1"
      and "reg DefaultAlgo = Some (argon2_impl env uc)"
      and "deref h uc = Some argonDefault"
  shows "Hash env reg h input = Inl (Panicked LibraryPanic)"
proof -
  have "argonThreads env = 0" using assms(1) by (simp add: argonThreads_def)
  from argon2_Hash_default_no_threads [OF assms(3) this] assms(2) show ?thesis
    by (simp add: Hash_def Let_def)
qed

lemma example_threads: "argonThreads example_env \<noteq> 0"
  by (simp add: argonThreads_def example_env_def)

lemma Split_default_params:
  "Split env ''id:4:65536'' ParameterSeparator = [''id'', ''4'', ''65536'']"
  by (simp add: Split_def ParameterSeparator_def)

lemma ParseInt_default: "ParseInt ''4'' 8 = Some 4" "ParseInt ''65536'' 32 = Some 65536"
  by (simp_all add: ParseInt_def ParseUint_def digits_def)

lemma argon2_Configure_default:
  assumes "deref h uc = Some argonDefault"
  shows "Configure (argon2_impl env uc) h ''id:4:65536'' ParameterSeparator 32 =
           (h @ [argonDefault], Inr (argon2_impl env (Ref (length h))))"
  using assms
  by (simp add: Configure_def argon2_impl_def argon2_Configure_def Split_default_params
        ParseInt_default argonNumParameters_def configureArgon_def argonModi_def Let_def
        argonDefault_def argonDefaultMode_def argonDefaultMemoryPasses_def
        argonDefaultMemorySize_def argonDefaultHashSize_def)

lemma registry_default:
  "HashImplementations env DefaultAlgo = Some (argon2_impl env (Ref 0))"
  by (simp add: HashImplementations_def DefaultAlgo_def hashID_def)

lemma init_heap_default: "deref init_heap (Ref 0) = Some argonDefault"
  by (simp add: init_heap_def)

lemma example_returns_keyLen: "returns_keyLen example_env"
  by (simp add: returns_keyLen_def example_env_def)

lemma example_salt: "GenerateRandomBytes example_env SaltSize = [1, 2, 3, 4, 5, 6, 7, 8, 9, 10]"
  by (simp add: GenerateRandomBytes_def example_env_def SaltSize_def upt_conv_Cons del: upt_Suc)

lemma example_key:
  "argon2_IDKey example_env [1, 2, 3] salt t m th 32 = replicate 32 7"
  by (simp add: example_env_def)

lemma example_hmac:
  "hmac_sha256 example_env key (replicate 32 7) = [word_of_nat (length key), 32, 7]"
  by (simp add: example_env_def)

lemma example_encodings:
  "EncodeToString [32, 1, 2, 3, 4, 5, 6, 7, 8, 9, 10] = ''IAECAwQFBgcICQo=''"
  "EncodeToString [36, 32, 7] = ''JCAH''"
  by (simp_all add: encode_quantum_def quantum_def enc6_def encodeStd_def padChar_def)

lemma example_Hash:
  "Hash example_env (HashImplementations example_env) init_heap [1, 2, 3] =
     Inr ''$argon2$id:4:65536$IAECAwQFBgcICQo=$JCAH''"
  by (simp add: Hash_def registry_default [unfolded DefaultAlgo_def]
        argon2_Hash_default [OF init_heap_default example_threads]
        example_salt example_key example_hmac hmacKey_def bytes_of_string_def
        DefaultAlgo_def Let_def
        encode_quantum_def quantum_def enc6_def encodeStd_def padChar_def)

section \<open>Splitting a record\<close>

lemma split_at_single:
  "split_at [d] cur (c # cs) =
     (if c = d then cur # split_at [d] [] cs else split_at [d] (cur @ [c]) cs)"
  by simp

lemma split_at_no_sep:
  "d \<notin> set a \<Longrightarrow> split_at [d] cur a = [cur @ a]"
  by (induction a arbitrary: cur) auto

lemma split_at_field:
  "d \<notin> set a \<Longrightarrow> split_at [d] cur (a @ d # rest) = (cur @ a) # split_at [d] [] rest"
  by (induction a arbitrary: cur) auto

lemma split_at_nonempty: "split_at sep cur s \<noteq> []"
  by (induction sep cur s rule: split_at.induct) auto

lemma split_at_join:
  "concat (map (\<lambda>p. p @ sep) (butlast (split_at sep cur s))) @ last (split_at sep cur s)
     = cur @ s"
proof (induction sep cur s rule: split_at.induct)
  case (1 sep cur)
  then show ?case by simp
next
  case (2 sep cur c cs)
  show ?case
  proof (cases "sep \<noteq> [] \<and> take (length sep) (c # cs) = sep")
    case True
    then have "c # cs = sep @ drop (length sep) (c # cs)"
      by (metis append_take_drop_id)
    with True 2(1) show ?thesis
      by (simp add: split_at_nonempty del: append_take_drop_id)
  next
    case False
    with 2(2) show ?thesis by auto
  qed
qed

lemma enc6_in_alphabet: "enc6 v \<in> set encodeStd"
  unfolding enc6_def by (rule nth_mem) (simp add: encodeStd_def)

lemma dollar_not_in_alphabet: "CHR ''$'' \<notin> set encodeStd" "CHR ''$'' \<noteq> padChar"
  by (simp_all add: encodeStd_def padChar_def)

lemma enc6_not_dollar: "enc6 v \<noteq> CHR ''$''" "CHR ''$'' \<noteq> enc6 v"
  using enc6_in_alphabet [of v] dollar_not_in_alphabet(1) by metis+

lemma dollar_not_in_EncodeToString: "CHR ''$'' \<notin> set (EncodeToString bs)"
  by (induction bs rule: EncodeToString.induct)
     (auto simp: encode_quantum_def enc6_not_dollar padChar_def)

lemma Split_record:
  assumes "CHR ''$'' \<notin> set a" "CHR ''$'' \<notin> set b" "CHR ''$'' \<notin> set c" "CHR ''$'' \<notin> set d"
  shows "Split env (''$'' @ a @ ''$'' @ b @ ''$'' @ c @ ''$'' @ d) Separator = [[], a, b, c, d]"
proof -
  have "split_at ''$'' [] (''$'' @ a @ ''$'' @ b @ ''$'' @ c @ ''$'' @ d)
          = [] # split_at ''$'' [] (a @ CHR ''$'' # b @ CHR ''$'' # c @ CHR ''$'' # d)"
    by simp
  also have "\<dots> = [[], a, b, c, d]"
    using assms by (simp add: split_at_field split_at_no_sep del: split_at.simps)
  finally show ?thesis by (simp add: Split_def Separator_def)
qed


section \<open>The record that Hash builds\<close>

text \<open>
  C6. Every record that \<open>Hash\<close> returns is \<open>prefix @ base64 tag\<close>, where the prefix is
  \<open>$\<close>, the default algorithm identifier, \<open>$\<close>, the parameter string of the registered
  implementation, \<open>$\<close>, the base64 encoding of the length byte followed by the salt, and
  \<open>$\<close>; the tag is HMAC-SHA256 with the bytes of the prefix as key and the derived key as
  message.
\<close>

theorem Hash_record_format:
  assumes "Hash env reg h input = Inr r"
  shows "\<exists>hasher params key.
           reg DefaultAlgo = Some hasher
         \<and> Hash_of hasher h input (GenerateRandomBytes env SaltSize) = Inr (params, key)
         \<and> r = (let prefix = ''$'' @ DefaultAlgo @ ''$'' @ params @ ''$''
                           @ EncodeToString (word_of_nat (length key)
                                              # GenerateRandomBytes env SaltSize) @ ''$''
                 in prefix @ EncodeToString (hmac_sha256 env (bytes_of_string prefix) key))"
  using assms
  by (auto simp: Hash_def hmacKey_def Let_def split: option.splits sum.splits prod.splits)

theorem Hash_record_format_witness:
  "Hash example_env (HashImplementations example_env) init_heap [1, 2, 3] =
     Inr ''$argon2$id:4:65536$IAECAwQFBgcICQo=$JCAH''
   \<and> (\<exists>hasher params key.
         HashImplementations example_env DefaultAlgo = Some hasher
       \<and> Hash_of hasher init_heap [1, 2, 3] (GenerateRandomBytes example_env SaltSize)
           = Inr (params, key)
       \<and> ''$argon2$id:4:65536$IAECAwQFBgcICQo=$JCAH'' =
           (let prefix = ''$'' @ DefaultAlgo @ ''$'' @ params @ ''$''
                           @ EncodeToString (word_of_nat (length key)
                                              # GenerateRandomBytes example_env SaltSize) @ ''$''
            in prefix @ EncodeToString (hmac_sha256 example_env (bytes_of_string prefix) key)))"
  using Hash_record_format [OF example_Hash] example_Hash
  by simp

section \<open>Hash, then VerifyHash\<close>

text \<open>
  C1. With the argon2 implementation registered under the default identifier in its
  default configuration, every record that \<open>Hash\<close> returns for a password verifies against
  that password: \<open>VerifyHash\<close> returns true and no error.
\<close>

theorem VerifyHash_Hash:
  assumes reg: "reg DefaultAlgo = Some (argon2_impl env uc)"
      and cfg: "deref h uc = Some argonDefault"
      and len: "returns_keyLen env"
      and hash: "Hash env reg h input = Inr r"
  shows "VerifyHash env reg h r input = Inr True"
proof -
  define salt where "salt = GenerateRandomBytes env SaltSize"
  define key where "key = argon2_IDKey env input salt 4 65536 (argonThreads env) 32"
  define encodedSalt where "encodedSalt = EncodeToString (32 # salt)"
  define prefix where "prefix = ''$'' @ ''argon2'' @ ''$'' @ ''id:4:65536'' @ ''$'' @ encodedSalt @ ''$''"
  define tag where "tag = hmac_sha256 env (bytes_of_string prefix) key"
  have klen: "length key = 32"
    using len by (simp add: returns_keyLen_def key_def)
  have threads: "argonThreads env \<noteq> 0"
  proof
    assume "argonThreads env = 0"
    from argon2_Hash_default_no_threads [OF cfg this] hash reg show False
      by (simp add: Hash_def Let_def)
  qed
  have r: "r = prefix @ EncodeToString tag"
    using hash reg klen
    by (simp add: Hash_def Let_def argon2_Hash_default [OF cfg threads] hmacKey_def
          salt_def [symmetric] key_def [symmetric] DefaultAlgo_def prefix_def encodedSalt_def
          tag_def)
  have parts: "Split env r Separator = [[], ''argon2'', ''id:4:65536'', encodedSalt, EncodeToString tag]"
    unfolding r prefix_def
    using Split_record [of "''argon2''" "''id:4:65536''" encodedSalt "EncodeToString tag" env]
    by (simp add: dollar_not_in_EncodeToString encodedSalt_def)
  have parse: "parseHash env reg r =
      Inr (argon2_impl env uc, ''id:4:65536'', salt, 32, EncodeToString tag)"
    using reg
    by (simp add: parseHash_def parts MinHashParts_def DefaultAlgo_def
          encodedSalt_def DecodeString_EncodeToString)
  have cfg': "deref (h @ [argonDefault]) (Ref (length h)) = Some argonDefault" by simp
  have pre: "take (length r - length (EncodeToString tag)) r = prefix"
    by (simp add: r)
  show ?thesis
    by (simp add: VerifyHash_def parse argon2_Configure_default [OF cfg]
          argon2_Hash_default [OF cfg' threads] hmacKey_def pre key_def [symmetric] tag_def [symmetric]
          DecodeString_EncodeToString)
qed


theorem VerifyHash_Hash_witness:
  "Hash example_env (HashImplementations example_env) init_heap [1, 2, 3] =
     Inr ''$argon2$id:4:65536$IAECAwQFBgcICQo=$JCAH''
   \<and> VerifyHash example_env (HashImplementations example_env) init_heap
         ''$argon2$id:4:65536$IAECAwQFBgcICQo=$JCAH'' [1, 2, 3] = Inr True"
  using VerifyHash_Hash [OF registry_default init_heap_default example_returns_keyLen example_Hash]
    example_Hash
  by simp

section \<open>Configure allocates and never writes to its receiver\<close>

lemma configureArgon_frame:
  assumes "configureArgon h uc mode hashSize passes memory = (h', r)"
  shows "take (length h) h' = h \<and> deref h' uc = deref h uc"
  using assms
  by (cases uc) (auto simp: configureArgon_def Let_def nth_append split: option.splits if_splits)

lemma configureArgon_success:
  assumes "configureArgon h uc mode hashSize passes memory = (h', Inr nc)"
  shows "nc = Ref (length h) \<and> nc \<noteq> uc \<and> length h' = Suc (length h)
         \<and> (\<exists>c. deref h uc = Some c \<and>
               deref h' nc = Some (c\<lparr>Mode := mode, HashSize := hashSize,
                                      MemoryPasses := passes, MemorySize := memory\<rparr>))"
  using assms
  by (cases uc) (auto simp: configureArgon_def Let_def nth_append split: option.splits if_splits)

text \<open>
  C9. Whenever \<open>Configure\<close> of the argon2 implementation succeeds, the pointer it returns
  is the address of a newly allocated struct, different from the receiver and from every
  struct that existed before; every struct that existed before is unchanged, and so the
  receiver has the mode, passes, memory size and hash size it had before the call.
\<close>

theorem Configure_leaves_receiver:
  assumes "argon2_Configure env h uc parameters separator hashSize = (h', Inr nc)"
  shows "nc = Ref (length h) \<and> nc \<noteq> uc \<and> length h' = Suc (length h)
         \<and> take (length h) h' = h
         \<and> (\<exists>c. deref h uc = Some c \<and> deref h' uc = Some c)"
proof -
  from assms obtain mode passes memory where
    c: "configureArgon h uc mode hashSize passes memory = (h', Inr nc)"
    by (auto simp: argon2_Configure_def Let_def split: if_splits option.splits)
  from configureArgon_frame [OF c] configureArgon_success [OF c]
  show ?thesis by auto
qed

theorem Configure_leaves_receiver_witness:
  "argon2_Configure example_env init_heap (Ref 0) ''i:3:1024'' '':'' 16 =
     ([argonDefault, \<lparr>MemoryPasses = 3, MemorySize = 1024, Mode = ''i'', HashSize = 16\<rparr>],
      Inr (Ref 1))
   \<and> deref [argonDefault, \<lparr>MemoryPasses = 3, MemorySize = 1024, Mode = ''i'', HashSize = 16\<rparr>]
         (Ref 0) = Some argonDefault"
proof -
  have e: "argon2_Configure example_env init_heap (Ref 0) ''i:3:1024'' '':'' 16 =
     ([argonDefault, \<lparr>MemoryPasses = 3, MemorySize = 1024, Mode = ''i'', HashSize = 16\<rparr>],
      Inr (Ref 1))"
    by (simp add: argon2_Configure_def Split_def ParseInt_def ParseUint_def digits_def
        argonNumParameters_def configureArgon_def argonModi_def init_heap_def argonDefault_def
        Let_def)
  from Configure_leaves_receiver [OF e] show ?thesis using e by (simp add: init_heap_def)
qed

text \<open>
  \<open>SetHashSize\<close>, in contrast, writes through its receiver.
\<close>

lemma SetHashSize_writes:
  assumes "deref h uc = Some c" and "size' \<noteq> 0"
  shows "\<exists>h'. SetHashSize h uc size' = (h', Inr ())
             \<and> deref h' uc = Some (c\<lparr>HashSize := size'\<rparr>)"
  using assms
  by (cases uc) (auto simp: SetHashSize_def split: if_splits)

section \<open>The rehash policy\<close>

lemma parseHash_Inr:
  assumes "parseHash env reg hash = Inr (impl, params, salt, hashSize, key)"
  shows "MinHashParts \<le> length (Split env hash Separator)
       \<and> reg (Split env hash Separator ! 1) = Some impl
       \<and> params = Split env hash Separator ! 2
       \<and> key = Split env hash Separator ! 4
       \<and> (\<exists>b. DecodeString (Split env hash Separator ! 3) = Some (b # salt) \<and> hashSize = uint b)"
  using assms
  by (auto simp: parseHash_def Let_def split: if_splits option.splits list.splits)

text \<open>
  C2. For a record that parses, in a registry where every implementation is registered
  under the identifier it reports, \<open>NeedsRehash\<close> returns the conjunction of three
  conditions: the algorithm identifier of the record is not the default one, the salt has
  fewer than 10 bytes, and the length byte is smaller than the default hash size of the
  record's algorithm. So it returns false for every record of the default algorithm,
  whatever its salt length and length byte.
\<close>

theorem NeedsRehash_policy:
  assumes "registry_ok reg"
      and "parseHash env reg hash = Inr (impl, params, salt, hashSize, key)"
  shows "NeedsRehash env reg hash =
           Inr (Split env hash Separator ! 1 \<noteq> DefaultAlgo \<and> length salt < 10
                \<and> hashSize < GetDefaultHashSize impl)
       \<and> (Split env hash Separator ! 1 = DefaultAlgo \<longrightarrow> NeedsRehash env reg hash = Inr False)"
proof -
  from parseHash_Inr [OF assms(2)] have "reg (Split env hash Separator ! 1) = Some impl"
    by simp
  with assms(1) have "GetID impl = Split env hash Separator ! 1"
    by (simp add: registry_ok_def)
  with assms(2) show ?thesis
    by (simp add: NeedsRehash_def SaltSize_def)
qed


lemma HashImplementations_ok: "registry_ok (HashImplementations env)"
  by (auto simp: registry_ok_def HashImplementations_def GetID_def argon2_impl_def
        argon2_GetID_def split: if_splits)

lemma example_registry_ok: "registry_ok example_registry"
  by (auto simp: registry_ok_def example_registry_def HashImplementations_def GetID_def
        legacy_impl_def argon2_impl_def argon2_GetID_def hashID_def split: if_splits)

lemmas eval_parse =
  parseHash_def Split_def Separator_def MinHashParts_def example_registry_def
  HashImplementations_def hashID_def DecodeString_def decodeMap_def encodeStd_def
  is_newline_def padChar_def assemble_def Let_def

lemma example_parse_legacy:
  "parseHash example_env example_registry ''$legacy$v1$CAEC$AAAA'' =
     Inr (legacy_impl, ''v1'', [1, 2], 8, ''AAAA'')"
  by (simp add: eval_parse)

lemma example_parse_short:
  "parseHash example_env example_registry ''$argon2$id:4:65536$CAEC$AAAA'' =
     Inr (argon2_impl example_env (Ref 0), ''id:4:65536'', [1, 2], 8, ''AAAA'')"
  by (simp add: eval_parse)

theorem NeedsRehash_policy_witness:
  "NeedsRehash example_env example_registry ''$legacy$v1$CAEC$AAAA'' = Inr True
   \<and> NeedsRehash example_env example_registry ''$argon2$id:4:65536$CAEC$AAAA'' = Inr False"
  using NeedsRehash_policy [OF example_registry_ok example_parse_legacy]
    NeedsRehash_policy [OF example_registry_ok example_parse_short]
  by (simp add: Split_def Separator_def DefaultAlgo_def GetDefaultHashSize_def legacy_impl_def)

section \<open>NeedsRehash never reconfigures\<close>

lemma NeedsRehash_parse_failure:
  "parseHash env reg hash = Inl f \<Longrightarrow> NeedsRehash env reg hash = Inl f"
  by (simp add: NeedsRehash_def)

text \<open>
  C3, as amended. \<open>NeedsRehash\<close> does only the parsing (the split, the registry lookup,
  the decoding of the salt field and the reading of its first byte) and never calls
  \<open>Configure\<close>. It fails exactly when parsing fails, with the failure of parsing. For a
  record that parses, its result is the policy on the implementation, the salt and the
  length byte alone: two records that differ only in the parameter string and the tag get
  the same result. For a record that parses and whose parameter string \<open>Configure\<close>
  rejects, \<open>VerifyHash\<close> returns that failure, and \<open>NeedsRehash\<close> returns a boolean.
\<close>

theorem NeedsRehash_without_Configure:
  "(\<forall>f. NeedsRehash env reg hash = Inl f \<longleftrightarrow> parseHash env reg hash = Inl f)
   \<and> (\<forall>impl params salt hashSize key.
          parseHash env reg hash = Inr (impl, params, salt, hashSize, key)
        \<longrightarrow> NeedsRehash env reg hash =
              Inr (GetID impl \<noteq> DefaultAlgo \<and> length salt < SaltSize
                   \<and> hashSize < GetDefaultHashSize impl))
   \<and> (\<forall>impl params salt hashSize key hash' params' key'.
          parseHash env reg hash = Inr (impl, params, salt, hashSize, key)
        \<and> parseHash env reg hash' = Inr (impl, params', salt, hashSize, key')
        \<longrightarrow> NeedsRehash env reg hash' = NeedsRehash env reg hash)
   \<and> (\<forall>impl params salt hashSize key h' f.
          parseHash env reg hash = Inr (impl, params, salt, hashSize, key)
        \<and> Configure impl h params ParameterSeparator (word_of_int hashSize) = (h', Inl f)
        \<longrightarrow> (\<exists>b. NeedsRehash env reg hash = Inr b)
            \<and> VerifyHash env reg h hash input = Inl f)"
  by (auto simp: NeedsRehash_def VerifyHash_def split: sum.splits)

lemma example_parse_garbage:
  "parseHash example_env (HashImplementations example_env)
       ''$argon2$garbage$IAECAwQFBgcICQo=$JCAH'' =
     Inr (argon2_impl example_env (Ref 0), ''garbage'', [1, 2, 3, 4, 5, 6, 7, 8, 9, 10], 32,
          ''JCAH'')"
  by (simp add: eval_parse)

lemma example_Configure_garbage:
  "Configure (argon2_impl example_env (Ref 0)) init_heap ''garbage'' ParameterSeparator
       (word_of_int 32) = (init_heap, Inl (Returned errBadParameters))"
  by (simp add: Configure_def argon2_impl_def argon2_Configure_def Split_def
        ParameterSeparator_def argonNumParameters_def)

theorem NeedsRehash_without_Configure_witness:
  "NeedsRehash example_env (HashImplementations example_env)
       ''$argon2$garbage$IAECAwQFBgcICQo=$JCAH'' = Inr False
   \<and> VerifyHash example_env (HashImplementations example_env) init_heap
       ''$argon2$garbage$IAECAwQFBgcICQo=$JCAH'' [1, 2, 3] = Inl (Returned errBadParameters)"
proof -
  note inst = NeedsRehash_without_Configure [of example_env "HashImplementations example_env"
      "''$argon2$garbage$IAECAwQFBgcICQo=$JCAH''" init_heap "[1, 2, 3]"]
  have "NeedsRehash example_env (HashImplementations example_env)
       ''$argon2$garbage$IAECAwQFBgcICQo=$JCAH'' =
     Inr (GetID (argon2_impl example_env (Ref 0)) \<noteq> DefaultAlgo
          \<and> length [1, 2, 3, 4, 5, 6, 7, 8, 9, 10 :: byte] < SaltSize
          \<and> 32 < GetDefaultHashSize (argon2_impl example_env (Ref 0)))"
    by (rule inst [THEN conjunct2, THEN conjunct1, rule_format, OF example_parse_garbage])
  then have a: "NeedsRehash example_env (HashImplementations example_env)
       ''$argon2$garbage$IAECAwQFBgcICQo=$JCAH'' = Inr False"
    by (simp add: GetID_def argon2_impl_def argon2_GetID_def hashID_def DefaultAlgo_def)
  have b: "VerifyHash example_env (HashImplementations example_env) init_heap
       ''$argon2$garbage$IAECAwQFBgcICQo=$JCAH'' [1, 2, 3] = Inl (Returned errBadParameters)"
    by (rule inst [THEN conjunct2, THEN conjunct2, THEN conjunct2, rule_format,
          OF conjI [OF example_parse_garbage example_Configure_garbage], THEN conjunct2])
  from a b show ?thesis by simp
qed

text \<open>
  The claim as stated fails: \<open>Configure\<close> rejects the parameter string \<open>id:0:65536\<close>
  (zero passes) with the bad-parameters error, and \<open>NeedsRehash\<close> returns false, no
  error, for a record that carries it.
\<close>

theorem NeedsRehash_bad_parameters_counterexample:
  "snd (Configure (argon2_impl example_env (Ref 0)) init_heap ''id:0:65536'' ParameterSeparator 32)
     = Inl (Returned errBadParameters)
   \<and> NeedsRehash example_env (HashImplementations example_env)
       ''$argon2$id:0:65536$IAECAwQFBgcICQo=$JCAH'' = Inr False"
  by (simp add: Configure_def argon2_impl_def argon2_Configure_def
        ParameterSeparator_def argonNumParameters_def ParseInt_def ParseUint_def digits_def
        configureArgon_def init_heap_def argonModi_def
        NeedsRehash_def eval_parse GetID_def argon2_GetID_def DefaultAlgo_def)


section \<open>The key of the integrity tag\<close>

lemma Split_Separator: "Split env hash Separator = split_at ''$'' [] hash"
  by (simp add: Split_def Separator_def)

lemma record_of_five_fields:
  assumes "length (Split env hash Separator) = 5"
  shows "hash = concat (map (\<lambda>p. p @ Separator) (take 4 (Split env hash Separator)))
                  @ Split env hash Separator ! 4"
proof -
  define parts where "parts = Split env hash Separator"
  have len: "length parts = 5" using assms by (simp add: parts_def)
  have j: "concat (map (\<lambda>p. p @ Separator) (butlast parts)) @ last parts = hash"
    using split_at_join [of Separator "[]" hash]
    by (simp add: parts_def Split_def Separator_def)
  have b: "butlast parts = take 4 parts"
    using len by (simp add: butlast_conv_take)
  have "parts \<noteq> []" using len by auto
  then have l: "last parts = parts ! 4"
    using len by (simp add: last_conv_nth)
  show ?thesis unfolding parts_def [symmetric] using j b l by simp
qed

lemma VerifyHash_steps:
  assumes "parseHash env reg hash = Inr (impl, params, salt, hashSize, key)"
      and "Configure impl h params ParameterSeparator (word_of_int hashSize) = (h', Inr impl')"
      and "Hash_of impl' h' input salt = Inr (ps, otherKey)"
  shows "VerifyHash env reg h hash input =
           (case DecodeString key of
              None \<Rightarrow> Inl (Returned CorruptInputError)
            | Some baseMac \<Rightarrow>
                Inr (baseMac =
                     hmac_sha256 env (bytes_of_string (take (length hash - length key) hash))
                       otherKey))"
  using assms by (simp add: VerifyHash_def hmacKey_def split: option.split)

lemma example_parse_record:
  "parseHash example_env (HashImplementations example_env)
       ''$argon2$id:4:65536$IAECAwQFBgcICQo=$JCAH'' =
     Inr (argon2_impl example_env (Ref 0), ''id:4:65536'', [1, 2, 3, 4, 5, 6, 7, 8, 9, 10], 32,
          ''JCAH'')"
  by (simp add: eval_parse)

lemma example_Configure:
  "Configure (argon2_impl example_env (Ref 0)) init_heap ''id:4:65536'' ParameterSeparator
       (word_of_int 32) = ([argonDefault, argonDefault], Inr (argon2_impl example_env (Ref 1)))"
  using argon2_Configure_default [OF init_heap_default, of example_env]
  by (simp add: init_heap_def)

lemma example_derive:
  "Hash_of (argon2_impl example_env (Ref 1)) [argonDefault, argonDefault] input salt =
     Inr (''id:4:65536'', replicate 32 (sum_list input + 1))"
proof -
  have "deref [argonDefault, argonDefault] (Ref 1) = Some argonDefault" by simp
  from argon2_Hash_default [OF this example_threads] show ?thesis
    by (simp add: example_env_def)
qed

text \<open>
  C7, as amended. For every record that splits into exactly five fields and for which
  parsing, reconfiguration and key derivation succeed, the record is the four first fields,
  each followed by \<open>$\<close>, followed by the tag field; \<open>VerifyHash\<close> compares the decoded tag
  field with HMAC-SHA256 whose key is that substring, from the start of the record through
  the \<open>$\<close> that ends the salt field, and whose message is the candidate derived key.
\<close>

theorem VerifyHash_hmac_key:
  assumes five: "length (Split env hash Separator) = 5"
      and parse: "parseHash env reg hash = Inr (impl, params, salt, hashSize, key)"
      and conf: "Configure impl h params ParameterSeparator (word_of_int hashSize) = (h', Inr impl')"
      and derive: "Hash_of impl' h' input salt = Inr (ps, otherKey)"
  shows "hash = concat (map (\<lambda>p. p @ Separator) (take 4 (Split env hash Separator))) @ key
       \<and> VerifyHash env reg h hash input =
           (case DecodeString key of
              None \<Rightarrow> Inl (Returned CorruptInputError)
            | Some baseMac \<Rightarrow>
                Inr (baseMac =
                     hmac_sha256 env
                       (bytes_of_string
                          (concat (map (\<lambda>p. p @ Separator) (take 4 (Split env hash Separator)))))
                       otherKey))"
proof -
  define P where "P = concat (map (\<lambda>p. p @ Separator) (take 4 (Split env hash Separator)))"
  from parseHash_Inr [OF parse] have key: "key = Split env hash Separator ! 4" by simp
  have hash: "hash = P @ key"
    using record_of_five_fields [OF five] by (simp add: P_def key)
  have "take (length hash - length key) hash = P"
    by (subst (2) hash, subst hash) simp
  then have "VerifyHash env reg h hash input =
           (case DecodeString key of
              None \<Rightarrow> Inl (Returned CorruptInputError)
            | Some baseMac \<Rightarrow> Inr (baseMac = hmac_sha256 env (bytes_of_string P) otherKey))"
    by (simp add: VerifyHash_def parse conf derive hmacKey_def split: option.split)
  with hash show ?thesis unfolding P_def by simp
qed


theorem VerifyHash_hmac_key_witness:
  "''$argon2$id:4:65536$IAECAwQFBgcICQo=$JCAH'' = ''$argon2$id:4:65536$IAECAwQFBgcICQo=$'' @ ''JCAH''
   \<and> VerifyHash example_env (HashImplementations example_env) init_heap
         ''$argon2$id:4:65536$IAECAwQFBgcICQo=$JCAH'' [1, 2, 3] =
       Inr ([36, 32, 7] =
            hmac_sha256 example_env (bytes_of_string ''$argon2$id:4:65536$IAECAwQFBgcICQo=$'')
              (replicate 32 7))"
proof -
  have five: "length (Split example_env ''$argon2$id:4:65536$IAECAwQFBgcICQo=$JCAH'' Separator) = 5"
    by (simp add: Split_def Separator_def)
  have tag: "DecodeString ''JCAH'' = Some [36, 32, 7]"
    by (simp add: DecodeString_def decodeMap_def encodeStd_def assemble_def)
  from VerifyHash_hmac_key [OF five example_parse_record example_Configure
      example_derive [of "[1, 2, 3]"]]
  show ?thesis by (simp add: tag Split_def Separator_def)
qed

text \<open>
  With a sixth field the claim as stated fails. \<open>VerifyHash\<close> cuts as many characters off
  the end of the record as field 4 is long, so the key is not the substring that ends with
  the \<open>$\<close> after the salt field: below, the tag field is the tag of the candidate key under
  that substring, and \<open>VerifyHash\<close> returns false.
\<close>

theorem VerifyHash_hmac_key_counterexample:
  "Split example_env ''$argon2$id:4:65536$IAECAwQFBgcICQo=$JCAH$x'' Separator =
     [[], ''argon2'', ''id:4:65536'', ''IAECAwQFBgcICQo='', ''JCAH'', ''x'']
   \<and> Hash_of (argon2_impl example_env (Ref 1)) [argonDefault, argonDefault] [1, 2, 3]
         [1, 2, 3, 4, 5, 6, 7, 8, 9, 10] = Inr (''id:4:65536'', replicate 32 7)
   \<and> DecodeString ''JCAH'' =
       Some (hmac_sha256 example_env (bytes_of_string ''$argon2$id:4:65536$IAECAwQFBgcICQo=$'')
               (replicate 32 7))
   \<and> VerifyHash example_env (HashImplementations example_env) init_heap
         ''$argon2$id:4:65536$IAECAwQFBgcICQo=$JCAH$x'' [1, 2, 3] = Inr False"
proof -
  have parts: "Split example_env ''$argon2$id:4:65536$IAECAwQFBgcICQo=$JCAH$x'' Separator =
     [[], ''argon2'', ''id:4:65536'', ''IAECAwQFBgcICQo='', ''JCAH'', ''x'']"
    by (simp add: Split_def Separator_def)
  have tag: "DecodeString ''JCAH'' = Some [36, 32, 7]"
    by (simp add: DecodeString_def decodeMap_def encodeStd_def assemble_def)
  have mac: "hmac_sha256 example_env (bytes_of_string ''$argon2$id:4:65536$IAECAwQFBgcICQo=$'')
               (replicate 32 7) = [36, 32, 7]"
    by (simp add: example_env_def bytes_of_string_def)
  have parse: "parseHash example_env (HashImplementations example_env)
       ''$argon2$id:4:65536$IAECAwQFBgcICQo=$JCAH$x'' =
     Inr (argon2_impl example_env (Ref 0), ''id:4:65536'', [1, 2, 3, 4, 5, 6, 7, 8, 9, 10], 32,
          ''JCAH'')"
    by (simp add: eval_parse)
  have verify: "VerifyHash example_env (HashImplementations example_env) init_heap
         ''$argon2$id:4:65536$IAECAwQFBgcICQo=$JCAH$x'' [1, 2, 3] = Inr False"
    using VerifyHash_steps [OF parse example_Configure example_derive [of "[1, 2, 3]"]]
    by (simp add: tag example_env_def bytes_of_string_def)
  show ?thesis
    using parts example_derive [of "[1, 2, 3]" "[1, 2, 3, 4, 5, 6, 7, 8, 9, 10]"] tag mac verify
    by simp
qed


section \<open>Mismatch and failure\<close>

text \<open>
  C8, as amended. \<open>VerifyHash\<close> returns false and no error exactly when parsing (with the
  registry lookup and the decoding of the salt field), reconfiguration, key derivation and
  the decoding of the tag field all succeed and the decoded tag differs from the recomputed
  one. A failure of parsing, of reconfiguration or of key derivation is returned as it is,
  and a tag field that is not base64 is returned as the decoder's error; none of them gives
  a boolean.
\<close>

theorem VerifyHash_false_iff_mismatch:
  "(VerifyHash env reg h hash input = Inr False \<longleftrightarrow>
      (\<exists>impl params salt hashSize key h' impl' ps otherKey baseMac.
          parseHash env reg hash = Inr (impl, params, salt, hashSize, key)
        \<and> Configure impl h params ParameterSeparator (word_of_int hashSize) = (h', Inr impl')
        \<and> Hash_of impl' h' input salt = Inr (ps, otherKey)
        \<and> DecodeString key = Some baseMac
        \<and> baseMac \<noteq> hmac_sha256 env (bytes_of_string (take (length hash - length key) hash))
                        otherKey))
   \<and> (\<forall>f. parseHash env reg hash = Inl f \<longrightarrow> VerifyHash env reg h hash input = Inl f)
   \<and> (\<forall>impl params salt hashSize key h' f.
          parseHash env reg hash = Inr (impl, params, salt, hashSize, key)
        \<and> Configure impl h params ParameterSeparator (word_of_int hashSize) = (h', Inl f)
        \<longrightarrow> VerifyHash env reg h hash input = Inl f)
   \<and> (\<forall>impl params salt hashSize key h' impl' f.
          parseHash env reg hash = Inr (impl, params, salt, hashSize, key)
        \<and> Configure impl h params ParameterSeparator (word_of_int hashSize) = (h', Inr impl')
        \<and> Hash_of impl' h' input salt = Inl f
        \<longrightarrow> VerifyHash env reg h hash input = Inl f)
   \<and> (\<forall>impl params salt hashSize key h' impl' ps otherKey.
          parseHash env reg hash = Inr (impl, params, salt, hashSize, key)
        \<and> Configure impl h params ParameterSeparator (word_of_int hashSize) = (h', Inr impl')
        \<and> Hash_of impl' h' input salt = Inr (ps, otherKey)
        \<and> DecodeString key = None
        \<longrightarrow> VerifyHash env reg h hash input = Inl (Returned CorruptInputError))"
proof (intro conjI allI impI iffI)
  assume "VerifyHash env reg h hash input = Inr False"
  then show "\<exists>impl params salt hashSize key h' impl' ps otherKey baseMac.
          parseHash env reg hash = Inr (impl, params, salt, hashSize, key)
        \<and> Configure impl h params ParameterSeparator (word_of_int hashSize) = (h', Inr impl')
        \<and> Hash_of impl' h' input salt = Inr (ps, otherKey)
        \<and> DecodeString key = Some baseMac
        \<and> baseMac \<noteq> hmac_sha256 env (bytes_of_string (take (length hash - length key) hash))
                        otherKey"
    by (auto simp: VerifyHash_def hmacKey_def split: sum.splits prod.splits option.splits)
next
  assume "\<exists>impl params salt hashSize key h' impl' ps otherKey baseMac.
          parseHash env reg hash = Inr (impl, params, salt, hashSize, key)
        \<and> Configure impl h params ParameterSeparator (word_of_int hashSize) = (h', Inr impl')
        \<and> Hash_of impl' h' input salt = Inr (ps, otherKey)
        \<and> DecodeString key = Some baseMac
        \<and> baseMac \<noteq> hmac_sha256 env (bytes_of_string (take (length hash - length key) hash))
                        otherKey"
  then show "VerifyHash env reg h hash input = Inr False"
    by (auto simp: VerifyHash_steps)
qed (auto simp: VerifyHash_def hmacKey_def)


lemma example_parse_bad_tag:
  "parseHash example_env (HashImplementations example_env)
       ''$argon2$id:4:65536$IAECAwQFBgcICQo=$!'' =
     Inr (argon2_impl example_env (Ref 0), ''id:4:65536'', [1, 2, 3, 4, 5, 6, 7, 8, 9, 10], 32,
          ''!'')"
  by (simp add: eval_parse)

lemma example_parse_four_fields:
  "parseHash example_env (HashImplementations example_env)
       ''$argon2$id:4:65536$IAECAwQFBgcICQo='' = Inl (Returned errBadHashFormat)"
  by (simp add: eval_parse)

lemma example_tags:
  "DecodeString ''JCAH'' = Some [36, 32, 7]" "DecodeString ''!'' = None"
  by (simp_all add: DecodeString_def decodeMap_def encodeStd_def assemble_def is_newline_def
        padChar_def)

theorem VerifyHash_false_iff_mismatch_witness:
  "VerifyHash example_env (HashImplementations example_env) init_heap
       ''$argon2$id:4:65536$IAECAwQFBgcICQo=$JCAH'' [1, 2, 4] = Inr False
   \<and> VerifyHash example_env (HashImplementations example_env) init_heap
       ''$argon2$id:4:65536$IAECAwQFBgcICQo='' [1, 2, 3] = Inl (Returned errBadHashFormat)
   \<and> VerifyHash example_env (HashImplementations example_env) init_heap
       ''$argon2$garbage$IAECAwQFBgcICQo=$JCAH'' [1, 2, 3] = Inl (Returned errBadParameters)
   \<and> VerifyHash example_env (HashImplementations example_env) init_heap
       ''$argon2$id:4:65536$IAECAwQFBgcICQo=$!'' [1, 2, 3] = Inl (Returned CorruptInputError)"
proof -
  have mismatch: "[36, 32, 7] \<noteq>
      hmac_sha256 example_env
        (bytes_of_string
           (take (length ''$argon2$id:4:65536$IAECAwQFBgcICQo=$JCAH'' - length ''JCAH'')
              ''$argon2$id:4:65536$IAECAwQFBgcICQo=$JCAH''))
        (replicate 32 (sum_list [1, 2, 4] + 1))"
    by (simp add: example_env_def)
  have a: "VerifyHash example_env (HashImplementations example_env) init_heap
       ''$argon2$id:4:65536$IAECAwQFBgcICQo=$JCAH'' [1, 2, 4] = Inr False"
    by (rule VerifyHash_false_iff_mismatch [THEN conjunct1, THEN iffD2], intro exI conjI)
       (rule example_parse_record example_Configure example_derive example_tags(1) mismatch)+
  have b: "VerifyHash example_env (HashImplementations example_env) init_heap
       ''$argon2$id:4:65536$IAECAwQFBgcICQo='' [1, 2, 3] = Inl (Returned errBadHashFormat)"
    by (rule VerifyHash_false_iff_mismatch [THEN conjunct2, THEN conjunct1, rule_format,
          OF example_parse_four_fields])
  have c: "VerifyHash example_env (HashImplementations example_env) init_heap
       ''$argon2$garbage$IAECAwQFBgcICQo=$JCAH'' [1, 2, 3] = Inl (Returned errBadParameters)"
    by (rule VerifyHash_false_iff_mismatch [THEN conjunct2, THEN conjunct2, THEN conjunct1,
          rule_format, OF conjI [OF example_parse_garbage example_Configure_garbage]])
  have d: "VerifyHash example_env (HashImplementations example_env) init_heap
       ''$argon2$id:4:65536$IAECAwQFBgcICQo=$!'' [1, 2, 3] = Inl (Returned CorruptInputError)"
    by (rule VerifyHash_false_iff_mismatch [THEN conjunct2, THEN conjunct2, THEN conjunct2,
          THEN conjunct2, rule_format,
          OF conjI [OF example_parse_bad_tag
               conjI [OF example_Configure conjI [OF example_derive example_tags(2)]]]])
  from a b c d show ?thesis by simp
qed

text \<open>
  The claim as stated fails where the tag field is not base64: parsing, registry lookup,
  decoding of the salt field, reconfiguration and key derivation succeed and the stored tag
  is not the recomputed one, and \<open>VerifyHash\<close> returns an error instead of false.
\<close>

theorem VerifyHash_undecodable_tag_counterexample:
  "parseHash example_env (HashImplementations example_env)
       ''$argon2$id:4:65536$IAECAwQFBgcICQo=$!'' =
     Inr (argon2_impl example_env (Ref 0), ''id:4:65536'', [1, 2, 3, 4, 5, 6, 7, 8, 9, 10], 32,
          ''!'')
   \<and> Configure (argon2_impl example_env (Ref 0)) init_heap ''id:4:65536'' ParameterSeparator
       (word_of_int 32) = ([argonDefault, argonDefault], Inr (argon2_impl example_env (Ref 1)))
   \<and> Hash_of (argon2_impl example_env (Ref 1)) [argonDefault, argonDefault] [1, 2, 3]
       [1, 2, 3, 4, 5, 6, 7, 8, 9, 10] = Inr (''id:4:65536'', replicate 32 7)
   \<and> DecodeString ''!'' = None
   \<and> VerifyHash example_env (HashImplementations example_env) init_heap
       ''$argon2$id:4:65536$IAECAwQFBgcICQo=$!'' [1, 2, 3] = Inl (Returned CorruptInputError)"
proof -
  have "VerifyHash example_env (HashImplementations example_env) init_heap
       ''$argon2$id:4:65536$IAECAwQFBgcICQo=$!'' [1, 2, 3] = Inl (Returned CorruptInputError)"
    using VerifyHash_steps [OF example_parse_bad_tag example_Configure
        example_derive [of "[1, 2, 3]"]]
    by (simp add: example_tags)
  with example_parse_bad_tag example_Configure
    example_derive [of "[1, 2, 3]" "[1, 2, 3, 4, 5, 6, 7, 8, 9, 10]"] example_tags(2)
  show ?thesis by simp
qed

section \<open>A salt field that decodes to no bytes\<close>

text \<open>
  \<open>parseHash\<close> panics in one case only: at least five fields, a registered identifier,
  and a salt field that decodes to no bytes.
\<close>

lemma parseHash_panics_iff:
  "parseHash env reg hash = Inl (Panicked p) \<longleftrightarrow>
     p = IndexOutOfRange
     \<and> MinHashParts \<le> length (Split env hash Separator)
     \<and> (\<exists>impl. reg (Split env hash Separator ! 1) = Some impl)
     \<and> DecodeString (Split env hash Separator ! 3) = Some []"
  by (auto simp: parseHash_def Let_def split: option.splits list.splits)

text \<open>
  C10. For a record of at least five fields with a registered algorithm identifier whose
  salt field decodes to the empty byte sequence, \<open>parseHash\<close> reads the first byte of the
  empty slice: it panics with an index out of range, and \<open>VerifyHash\<close> and
  \<open>NeedsRehash\<close> with it, instead of returning the bad-format error.
\<close>

theorem parseHash_empty_blob_panics:
  assumes "MinHashParts \<le> length (Split env hash Separator)"
      and "reg (Split env hash Separator ! 1) = Some impl"
      and "DecodeString (Split env hash Separator ! 3) = Some []"
  shows "parseHash env reg hash = Inl (Panicked IndexOutOfRange)
       \<and> VerifyHash env reg h hash input = Inl (Panicked IndexOutOfRange)
       \<and> NeedsRehash env reg hash = Inl (Panicked IndexOutOfRange)"
  using assms by (simp add: parseHash_def VerifyHash_def NeedsRehash_def Let_def)

theorem parseHash_empty_blob_panics_witness:
  "DecodeString [] = Some []
   \<and> parseHash example_env (HashImplementations example_env) ''$argon2$id:4:65536$$JCAH''
       = Inl (Panicked IndexOutOfRange)
   \<and> VerifyHash example_env (HashImplementations example_env) init_heap
       ''$argon2$id:4:65536$$JCAH'' [1, 2, 3] = Inl (Panicked IndexOutOfRange)
   \<and> NeedsRehash example_env (HashImplementations example_env) ''$argon2$id:4:65536$$JCAH''
       = Inl (Panicked IndexOutOfRange)"
proof -
  have parts: "Split example_env ''$argon2$id:4:65536$$JCAH'' Separator =
      [[], ''argon2'', ''id:4:65536'', [], ''JCAH'']"
    by (simp add: Split_def Separator_def)
  have a: "MinHashParts \<le> length (Split example_env ''$argon2$id:4:65536$$JCAH'' Separator)"
    by (simp add: parts MinHashParts_def)
  have b: "HashImplementations example_env (Split example_env ''$argon2$id:4:65536$$JCAH'' Separator ! 1)
      = Some (argon2_impl example_env (Ref 0))"
    by (simp add: parts HashImplementations_def hashID_def)
  have c: "DecodeString (Split example_env ''$argon2$id:4:65536$$JCAH'' Separator ! 3) = Some []"
    by (simp add: parts DecodeString_def)
  from parseHash_empty_blob_panics [where reg = "HashImplementations example_env"
      and impl = "argon2_impl example_env (Ref 0)" and h = init_heap and input = "[1, 2, 3]",
      OF a b c]
  show ?thesis by (simp add: DecodeString_def)
qed

section \<open>A random source that fails\<close>

text \<open>
  C4. When the random source returns an error or fewer than the 10 bytes asked for,
  \<open>GenerateRandomBytes\<close> returns nil and \<open>Hash\<close> goes on with it: it derives the key with
  an empty salt and returns a record whose salt field holds the length byte alone. No error
  is returned.
\<close>

theorem Hash_without_salt:
  assumes "rand_Read env SaltSize = (b, n, err)"
      and "err \<or> n \<noteq> SaltSize"
      and "reg DefaultAlgo = Some hasher"
      and "Hash_of hasher h input [] = Inr (params, key)"
  shows "Hash env reg h input =
           Inr (let prefix = ''$'' @ DefaultAlgo @ ''$'' @ params @ ''$''
                       @ EncodeToString [word_of_nat (length key)] @ ''$''
                in prefix @ EncodeToString (hmac_sha256 env (bytes_of_string prefix) key))"
  using assms by (auto simp: Hash_def GenerateRandomBytes_def hmacKey_def Let_def)

theorem Hash_without_salt_witness:
  "Hash (example_env\<lparr>rand_Read := (\<lambda>n. (replicate n 0, 0, True))\<rparr>)
      (HashImplementations example_env) init_heap [1, 2, 3] = Inr ''$argon2$id:4:65536$IA==$GCAH''"
proof -
  let ?env = "example_env\<lparr>rand_Read := (\<lambda>n. (replicate n 0, 0, True))\<rparr>"
  have r: "rand_Read ?env SaltSize = (replicate SaltSize 0, 0, True)" by simp
  have e: "True \<or> 0 \<noteq> SaltSize" by simp
  have d: "Hash_of (argon2_impl example_env (Ref 0)) init_heap [1, 2, 3] [] =
      Inr (''id:4:65536'', replicate 32 7)"
    using argon2_Hash_default [OF init_heap_default example_threads, of "[1, 2, 3]" "[]"]
    by (simp add: example_env_def)
  from Hash_without_salt [where reg = "HashImplementations example_env",
      OF r e registry_default [of example_env] d]
  show ?thesis
    by (simp add: DefaultAlgo_def Let_def example_env_def bytes_of_string_def
          encode_quantum_def quantum_def enc6_def encodeStd_def padChar_def)
qed

section \<open>Negative costs\<close>

text \<open>
  With a receiver that is not nil, \<open>Configure\<close> returns the bad-parameters error exactly
  when the parameter string has fewer than three fields, passes or memory does not parse as
  a signed integer of 8 or 32 bits, the mode is not known, or the hash size, the passes or
  the memory is zero.
\<close>

lemma parse_digits_nonneg:
  "parse_digits acc s = Some n \<Longrightarrow> 0 \<le> acc \<Longrightarrow> 0 \<le> n"
  by (induction s arbitrary: acc) (auto split: option.splits)

lemma ParseUint_nonneg: "ParseUint s = Some n \<Longrightarrow> 0 \<le> n"
  using parse_digits_nonneg [of 0 s n] by (simp add: ParseUint_def split: if_splits)

lemma ParseUint_neg_less: "ParseUint s = Some n \<Longrightarrow> - n < 2 ^ k"
proof -
  assume "ParseUint s = Some n"
  then have "0 \<le> n" by (rule ParseUint_nonneg)
  moreover have "(0::int) < 2 ^ k" by simp
  ultimately show ?thesis by linarith
qed

lemma ParseInt_range:
  assumes "ParseInt s bitSize = Some n"
  shows "- (2 ^ (bitSize - 1)) \<le> n \<and> n < 2 ^ (bitSize - 1)"
  using assms
  by (auto simp: ParseInt_def Let_def dest: ParseUint_nonneg intro: ParseUint_neg_less
        split: list.splits option.splits if_splits)

lemma word32_of_int_eq_0:
  assumes "- (2 ^ 31) \<le> n" and "n < 2 ^ 31"
  shows "(word_of_int n :: uint32) = 0 \<longleftrightarrow> n = 0"
proof
  assume "(word_of_int n :: uint32) = 0"
  then have "(2::int) ^ 32 dvd n" by (simp add: word_of_int_eq_0_iff)
  then obtain k where k: "n = 2 ^ 32 * k" by (auto simp: dvd_def)
  with assms have "k = 0" by simp
  with k show "n = 0" by simp
qed simp

lemma word32_of_ParseInt:
  "ParseInt s 8 = Some n \<Longrightarrow> (word_of_int n :: uint32) = 0 \<Longrightarrow> n = 0"
  "ParseInt s 32 = Some n \<Longrightarrow> (word_of_int n :: uint32) = 0 \<Longrightarrow> n = 0"
proof -
  show "ParseInt s 8 = Some n \<Longrightarrow> (word_of_int n :: uint32) = 0 \<Longrightarrow> n = 0"
    using ParseInt_range [of s 8 n] word32_of_int_eq_0 [of n] by simp
  show "ParseInt s 32 = Some n \<Longrightarrow> (word_of_int n :: uint32) = 0 \<Longrightarrow> n = 0"
    using ParseInt_range [of s 32 n] word32_of_int_eq_0 [of n] by simp
qed

lemma argon2_Configure_fails_iff:
  assumes "deref h uc = Some c"
  shows "snd (argon2_Configure env h uc parameters separator hashSize)
           = Inl (Returned errBadParameters)
       \<longleftrightarrow> (let pars = Split env parameters separator
            in length pars < 3
               \<or> ParseInt (pars ! 1) 8 = None \<or> ParseInt (pars ! 2) 32 = None
               \<or> \<not> inStrArray (pars ! 0) argonModi
               \<or> hashSize = 0
               \<or> ParseInt (pars ! 1) 8 = Some 0 \<or> ParseInt (pars ! 2) 32 = Some 0)"
  using assms
  by (auto simp: argon2_Configure_def configureArgon_def argonNumParameters_def Let_def
        dest: word32_of_ParseInt split: option.splits)

text \<open>
  C5. \<open>Configure\<close> converts the parsed costs to \<open>uint32\<close> before \<open>configureArgon\<close>
  compares them with zero, so a negative number of passes or a negative memory size is
  accepted: \<open>-1\<close> passes become 4294967295 passes, and \<open>-7\<close> KiB become 4294967289 KiB.
\<close>

theorem Configure_accepts_negative_cost:
  "argon2_Configure example_env init_heap (Ref 0) ''id:-1:65536'' '':'' 32 =
     ([argonDefault,
       \<lparr>MemoryPasses = 4294967295, MemorySize = 65536, Mode = ''id'', HashSize = 32\<rparr>],
      Inr (Ref 1))
   \<and> argon2_Configure example_env init_heap (Ref 0) ''i:4:-7'' '':'' 32 =
     ([argonDefault,
       \<lparr>MemoryPasses = 4, MemorySize = 4294967289, Mode = ''i'', HashSize = 32\<rparr>],
      Inr (Ref 1))"
  by (simp add: argon2_Configure_def Split_def ParseInt_def ParseUint_def digits_def
        argonNumParameters_def configureArgon_def argonModi_def init_heap_def argonDefault_def
        Let_def)


end
